theory Spec2Isabelle
  imports Main
begin

section \<open>JavaScript values, numbers and errors\<close>

text \<open>
  The handler of \<^verbatim>\<open>src/join-date-mapping.js\<close> tests several values for truthiness
  (\<^verbatim>\<open>!customerEmail\<close>, \<^verbatim>\<open>contact.properties.join_date\<close>, \<^verbatim>\<open>!hubspotToken\<close>) and
  interpolates them into messages. These values come from parsed JSON: a field may be
  missing (\<open>JUndefined\<close>), \<^verbatim>\<open>null\<close>, a boolean or a string.
\<close>

datatype js_value = JUndefined | JNull | JBool bool | JStr string

fun truthy :: "js_value \<Rightarrow> bool" where
  "truthy JUndefined = False"
| "truthy JNull = False"
| "truthy (JBool b) = b"
| "truthy (JStr s) = (s \<noteq> [])"

text \<open>String conversion of a value inside a template literal.\<close>

fun to_string :: "js_value \<Rightarrow> string" where
  "to_string JUndefined = ''undefined''"
| "to_string JNull = ''null''"
| "to_string (JBool b) = (if b then ''true'' else ''false'')"
| "to_string (JStr s) = s"

text \<open>
  A thrown value: the three error classes the handler can meet, each with its
  \<^verbatim>\<open>message\<close>.
\<close>

datatype js_error =
    Error (error_message: string)
  | TypeError (error_message: string)
  | RangeError (error_message: string)

text \<open>
  The value of \<^verbatim>\<open>event.created\<close> as the handler may receive it: a number with an
  integer value, \<^verbatim>\<open>null\<close>, or a value that arithmetic converts to \<^verbatim>\<open>NaN\<close> (a
  missing field, a non-numeric string). An integer beyond the largest finite double is
  \<^verbatim>\<open>Infinity\<close> in the runtime. Numbers with a fraction are outside the model.
\<close>

datatype created_value = Num int | Null | NonNumeric

text \<open>
  A number the runtime computes: \<^verbatim>\<open>NaN\<close> or an integer. A product of magnitude above
  \<open>2^53\<close> is inexact or infinite in the runtime, but it then lies beyond the range of
  time values in the model and in the runtime alike, so exact integer arithmetic gives
  the same outcome.
\<close>

datatype js_number = NaN | Number int

text \<open>\<^verbatim>\<open>unixTimestamp * k\<close>: the operand is converted to a number, \<^verbatim>\<open>null\<close> to 0.\<close>

fun js_times :: "created_value \<Rightarrow> int \<Rightarrow> js_number" where
  "js_times (Num n) k = Number (n * k)"
| "js_times Null k = Number 0"
| "js_times NonNumeric k = NaN"

text \<open>
  \<^verbatim>\<open>JSON.parse(JSON.stringify(v))\<close> on such a value: \<^verbatim>\<open>JSON.stringify\<close> writes a
  number that is not finite as \<^verbatim>\<open>null\<close>, and an integer is a finite double when
  rounding to nearest does not reach \<open>2^1024\<close>. Everything else comes back as it was.
\<close>

definition finite_double :: "int \<Rightarrow> bool" where
  "finite_double n = (\<bar>n\<bar> < 2 ^ 1024 - 2 ^ 970)"

fun JSON_round_trip_created :: "created_value \<Rightarrow> created_value" where
  "JSON_round_trip_created (Num n) = (if finite_double n then Num n else Null)"
| "JSON_round_trip_created Null = Null"
| "JSON_round_trip_created NonNumeric = NonNumeric"

section \<open>Dates: the runtime's \<^verbatim>\<open>Date\<close> and \<^verbatim>\<open>toISOString\<close>\<close>

text \<open>
  \<^verbatim>\<open>new Date(value)\<close> clips the value: a time value is an integer number of
  milliseconds of magnitude at most \<open>8.64 * 10^15\<close>, anything else is an invalid date.
\<close>

definition new_Date :: "js_number \<Rightarrow> js_number" where
  "new_Date v =
     (case v of
        NaN \<Rightarrow> NaN
      | Number ms \<Rightarrow> if \<bar>ms\<bar> > 8640000000000000 then NaN else Number ms)"

definition msPerDay :: int where
  "msPerDay = 86400000"

definition Day :: "int \<Rightarrow> int" where
  "Day t = t div msPerDay"

definition DayFromYear :: "int \<Rightarrow> int" where
  "DayFromYear y =
     365 * (y - 1970) + (y - 1969) div 4 - (y - 1901) div 100 + (y - 1601) div 400"

text \<open>
  The year of a day number is the largest \<open>y\<close> with \<open>DayFromYear y \<le> d\<close>. It is
  computed from the mean length of a year (146097 days in 400 years), which is off by
  at most one year, and adjusted.
\<close>

definition YearFromDay :: "int \<Rightarrow> int" where
  "YearFromDay d =
     (let y = 1970 + (400 * d) div 146097
      in if DayFromYear (y + 1) \<le> d then y + 1
         else if DayFromYear y \<le> d then y
         else y - 1)"

definition YearFromTime :: "int \<Rightarrow> int" where
  "YearFromTime t = YearFromDay (Day t)"

definition DaysInYear :: "int \<Rightarrow> int" where
  "DaysInYear y =
     (if y mod 4 \<noteq> 0 then 365
      else if y mod 100 \<noteq> 0 then 366
      else if y mod 400 \<noteq> 0 then 365
      else 366)"

definition InLeapYear :: "int \<Rightarrow> int" where
  "InLeapYear t = (if DaysInYear (YearFromTime t) = 366 then 1 else 0)"

definition DayWithinYear :: "int \<Rightarrow> int" where
  "DayWithinYear t = Day t - DayFromYear (YearFromTime t)"

text \<open>Months are numbered from 0, as the runtime does.\<close>

definition MonthFromTime :: "int \<Rightarrow> int" where
  "MonthFromTime t =
     (let d = DayWithinYear t; l = InLeapYear t
      in if d < 31 then 0
         else if d < 59 + l then 1
         else if d < 90 + l then 2
         else if d < 120 + l then 3
         else if d < 151 + l then 4
         else if d < 181 + l then 5
         else if d < 212 + l then 6
         else if d < 243 + l then 7
         else if d < 273 + l then 8
         else if d < 304 + l then 9
         else if d < 334 + l then 10
         else 11)"

definition DateFromTime :: "int \<Rightarrow> int" where
  "DateFromTime t =
     (let d = DayWithinYear t; l = InLeapYear t; m = MonthFromTime t
      in if m = 0 then d + 1
         else if m = 1 then d - 30
         else if m = 2 then d - 58 - l
         else if m = 3 then d - 89 - l
         else if m = 4 then d - 119 - l
         else if m = 5 then d - 150 - l
         else if m = 6 then d - 180 - l
         else if m = 7 then d - 211 - l
         else if m = 8 then d - 242 - l
         else if m = 9 then d - 272 - l
         else if m = 10 then d - 303 - l
         else d - 333 - l)"

definition HourFromTime :: "int \<Rightarrow> int" where
  "HourFromTime t = (t div 3600000) mod 24"

definition MinFromTime :: "int \<Rightarrow> int" where
  "MinFromTime t = (t div 60000) mod 60"

definition SecFromTime :: "int \<Rightarrow> int" where
  "SecFromTime t = (t div 1000) mod 60"

definition msFromTime :: "int \<Rightarrow> int" where
  "msFromTime t = t mod 1000"

text \<open>Decimal digits of a natural number, and padding with zeros to a least width.\<close>

definition digit :: "nat \<Rightarrow> char" where
  "digit n = ''0123456789'' ! (n mod 10)"

fun decimal :: "nat \<Rightarrow> string" where
  "decimal n = (if n < 10 then [digit n] else decimal (n div 10) @ [digit n])"

declare decimal.simps [simp del]

definition ToZeroPaddedDecimalString :: "nat \<Rightarrow> nat \<Rightarrow> string" where
  "ToZeroPaddedDecimalString n minLength =
     (let s = decimal n in replicate (minLength - length s) CHR ''0'' @ s)"

text \<open>
  The year of an ISO string has four digits from 0 to 9999, and is otherwise written
  in the expanded form: a sign and six digits.
\<close>

definition iso_year :: "int \<Rightarrow> string" where
  "iso_year y =
     (if 0 \<le> y \<and> y \<le> 9999 then ToZeroPaddedDecimalString (nat y) 4
      else (if y < 0 then ''-'' else ''+'') @ ToZeroPaddedDecimalString (nat \<bar>y\<bar>) 6)"

definition iso_date :: "int \<Rightarrow> string" where
  "iso_date t =
     iso_year (YearFromTime t) @ ''-''
     @ ToZeroPaddedDecimalString (nat (MonthFromTime t + 1)) 2 @ ''-''
     @ ToZeroPaddedDecimalString (nat (DateFromTime t)) 2"

definition iso_time :: "int \<Rightarrow> string" where
  "iso_time t =
     ToZeroPaddedDecimalString (nat (HourFromTime t)) 2 @ '':''
     @ ToZeroPaddedDecimalString (nat (MinFromTime t)) 2 @ '':''
     @ ToZeroPaddedDecimalString (nat (SecFromTime t)) 2 @ ''.''
     @ ToZeroPaddedDecimalString (nat (msFromTime t)) 3"

definition toISOString :: "js_number \<Rightarrow> js_error + string" where
  "toISOString tv =
     (case tv of
        NaN \<Rightarrow> Inl (RangeError ''Invalid time value'')
      | Number t \<Rightarrow> Inr (iso_date t @ ''T'' @ iso_time t @ ''Z''))"

text \<open>\<^verbatim>\<open>s.split('T')[0]\<close>: the part of \<open>s\<close> before its first \<open>T\<close> (all of \<open>s\<close> without one).\<close>

definition split_T_0 :: "string \<Rightarrow> string" where
  "split_T_0 s = takeWhile (\<lambda>c. c \<noteq> CHR ''T'') s"

section \<open>\<^verbatim>\<open>formatJoinDate\<close>\<close>

text \<open>
  \<^verbatim>\<open>
  const formatJoinDate = (unixTimestamp) => {
    try {
      const date = new Date(unixTimestamp * 1000);
      return date.toISOString().split('T')[0];
    } catch (error) {
      throw new Error(`Date formatting failed: ${error.message}`);
    }
  };
  \<close>
\<close>

definition formatJoinDate :: "created_value \<Rightarrow> js_error + string" where
  "formatJoinDate unixTimestamp =
     (let date = new_Date (js_times unixTimestamp 1000)
      in case toISOString date of
           Inl error \<Rightarrow> Inl (Error (''Date formatting failed: '' @ error_message error))
         | Inr isoString \<Rightarrow> Inr (split_T_0 isoString))"

section \<open>The CRM client and the handler's state\<close>

text \<open>
  A contact as the search returns it: an identifier and the one property requested.
  A search response carries its result list at the top level, or one level down under
  \<^verbatim>\<open>body\<close>; a field that is absent is \<open>None\<close>, and the response itself may be
  \<^verbatim>\<open>null\<close> or \<^verbatim>\<open>undefined\<close> (\<open>None\<close>).
\<close>

record contact_properties =
  join_date :: js_value

record contact =
  contact_id :: string
  properties :: contact_properties

record search_body =
  body_results :: "contact list option"

record search_response =
  results :: "contact list option"
  search_body :: "search_body option"

text \<open>
  The three operations of the HubSpot client that the handler calls, as functions on
  the state \<open>'w\<close> of the external system. Each may fail (\<open>Inl\<close>, a rejected promise).
  The client is a parameter, as in the source, so every result below holds for any
  behaviour of the external system unless a theorem assumes one.
\<close>

record 'w hubspot_client =
  coreApi_getAll :: "'w \<Rightarrow> (js_error + unit) \<times> 'w"
  searchApi_doSearch :: "js_value \<Rightarrow> 'w \<Rightarrow> (js_error + search_response option) \<times> 'w"
  basicApi_update :: "string \<Rightarrow> string \<Rightarrow> 'w \<Rightarrow> (js_error + unit) \<times> 'w"

text \<open>
  The external calls an invocation issues, in order: the properties read, the search
  for an email, and the update of a contact's \<^verbatim>\<open>join_date\<close>.
\<close>

datatype api_call =
    GetAll
  | DoSearch js_value
  | Update string string


fun is_update :: "api_call \<Rightarrow> bool" where
  "is_update (Update i d) = True"
| "is_update c = False"

record response_data =
  data_contactId :: string
  data_joinDate :: js_value
  data_contactEmail :: js_value
  data_existingJoinDate :: js_value
  data_eventId :: js_value

record response_body =
  status :: string
  body_action :: "string option"
  body_message :: string
  body_data :: "response_data option"

record response =
  statusCode :: nat
  body :: response_body

text \<open>
  The state threaded through an invocation: the external system, the calls issued to
  it so far, and the responses passed to \<^verbatim>\<open>sendResponse\<close> so far.
\<close>

record 'w state =
  world :: 'w
  calls :: "api_call list"
  sent :: "response list"

definition call_getAll :: "'w hubspot_client \<Rightarrow> 'w state \<Rightarrow> (js_error + unit) \<times> 'w state" where
  "call_getAll client s =
     (case coreApi_getAll client (world s) of
        (r, w) \<Rightarrow> (r, s\<lparr>world := w, calls := calls s @ [GetAll]\<rparr>))"

definition call_doSearch ::
  "'w hubspot_client \<Rightarrow> js_value \<Rightarrow> 'w state \<Rightarrow> (js_error + search_response option) \<times> 'w state" where
  "call_doSearch client email s =
     (case searchApi_doSearch client email (world s) of
        (r, w) \<Rightarrow> (r, s\<lparr>world := w, calls := calls s @ [DoSearch email]\<rparr>))"

definition call_update ::
  "'w hubspot_client \<Rightarrow> string \<Rightarrow> string \<Rightarrow> 'w state \<Rightarrow> (js_error + unit) \<times> 'w state" where
  "call_update client i d s =
     (case basicApi_update client i d (world s) of
        (r, w) \<Rightarrow> (r, s\<lparr>world := w, calls := calls s @ [Update i d]\<rparr>))"

definition sendResponse :: "response \<Rightarrow> 'w state \<Rightarrow> 'w state" where
  "sendResponse r s = s\<lparr>sent := sent s @ [r]\<rparr>"

section \<open>\<^verbatim>\<open>findContactByEmail\<close>\<close>

text \<open>
  \<^verbatim>\<open>searchResult?.results || searchResult?.body?.results || []\<close>: an array is truthy
  even when empty, so the first list that is present is taken.
\<close>

definition select_results :: "search_response option \<Rightarrow> contact list" where
  "select_results searchResult =
     (case searchResult of
        None \<Rightarrow> []
      | Some r \<Rightarrow>
          (case results r of
             Some l \<Rightarrow> l
           | None \<Rightarrow>
               (case search_body r of
                  None \<Rightarrow> []
                | Some b \<Rightarrow> (case body_results b of Some l \<Rightarrow> l | None \<Rightarrow> []))))"

text \<open>\<^verbatim>\<open>results.length > 0 ? results[0] : null\<close>\<close>

definition first_or_null :: "contact list \<Rightarrow> contact option" where
  "first_or_null rs = (if length rs > 0 then Some (rs ! 0) else None)"

definition findContactByEmail ::
  "'w hubspot_client \<Rightarrow> js_value \<Rightarrow> 'w state \<Rightarrow> (js_error + contact option) \<times> 'w state" where
  "findContactByEmail hubspotClient email s =
     (case call_doSearch hubspotClient email s of
        (Inl error, s') \<Rightarrow>
          (Inl (Error (''Contact search failed: '' @ error_message error)), s')
      | (Inr searchResult, s') \<Rightarrow>
          (Inr (first_or_null (select_results searchResult)), s'))"

section \<open>\<^verbatim>\<open>processJoinDateMapping\<close>\<close>

text \<open>
  The inbound event: \<^verbatim>\<open>type\<close>, \<^verbatim>\<open>id\<close>, \<^verbatim>\<open>created\<close>, and the outcome of reading
  \<^verbatim>\<open>data.object.customer_details.email\<close>, which throws a \<open>TypeError\<close> when an object
  on the path is missing.
\<close>

record stripe_event =
  event_type :: js_value
  event_id :: js_value
  created :: created_value
  customer_details_email :: "js_error + js_value"

record join_date_result =
  success :: bool
  action :: string
  message :: string
  contactId :: string
  joinDate :: js_value
  contactEmail :: js_value
  existingJoinDate :: js_value

definition processJoinDateMapping ::
  "'w hubspot_client \<Rightarrow> stripe_event \<Rightarrow> js_value \<Rightarrow> 'w state
     \<Rightarrow> (js_error + join_date_result) \<times> 'w state" where
  "processJoinDateMapping hubspotClient stripeEvent customerEmail s =
     (if \<not> truthy customerEmail
      then (Inl (Error ''No customer email found in checkout session''), s)
      else
        case formatJoinDate (created stripeEvent) of
          Inl error \<Rightarrow> (Inl error, s)
        | Inr jd \<Rightarrow>
            (case findContactByEmail hubspotClient customerEmail s of
               (Inl error, s1) \<Rightarrow> (Inl error, s1)
             | (Inr None, s1) \<Rightarrow>
                 (Inl (Error (''No contact found with email: '' @ to_string customerEmail)), s1)
             | (Inr (Some c), s1) \<Rightarrow>
                 if truthy (join_date (properties c))
                 then (Inr \<lparr>success = True, action = ''skipped'',
                             message = ''Join date already exists'',
                             contactId = contact_id c, joinDate = JUndefined,
                             contactEmail = JUndefined,
                             existingJoinDate = join_date (properties c)\<rparr>, s1)
                 else
                   (case call_update hubspotClient (contact_id c) jd s1 of
                      (Inl error, s2) \<Rightarrow> (Inl error, s2)
                    | (Inr u, s2) \<Rightarrow>
                        (Inr \<lparr>success = True, action = ''updated'',
                               message = ''Join date successfully set'',
                               contactId = contact_id c, joinDate = JStr jd,
                               contactEmail = customerEmail,
                               existingJoinDate = JUndefined\<rparr>, s2))))"

section \<open>\<^verbatim>\<open>exports.main\<close>\<close>

text \<open>
  \<^verbatim>\<open>JSON.parse(JSON.stringify(context.body))\<close> on the event: a type or an id that is
  missing, \<^verbatim>\<open>null\<close>, a boolean or a string comes back as it was, and so does the rest
  of the body; the timestamp as above.
\<close>

definition JSON_round_trip :: "stripe_event \<Rightarrow> stripe_event" where
  "JSON_round_trip ev = ev\<lparr>created := JSON_round_trip_created (created ev)\<rparr>"

record function_context =
  secrets_joinDateKey :: js_value
  request_body :: stripe_event

definition ignored_response :: "stripe_event \<Rightarrow> response" where
  "ignored_response stripeEvent =
     \<lparr>statusCode = 200,
      body = \<lparr>status = ''ignored'', body_action = None,
               body_message = ''Event type '' @ to_string (event_type stripeEvent)
                                @ '' not processed'',
               body_data = None\<rparr>\<rparr>"

definition success_response :: "stripe_event \<Rightarrow> join_date_result \<Rightarrow> response" where
  "success_response stripeEvent result =
     \<lparr>statusCode = 200,
      body = \<lparr>status = ''success'', body_action = Some (action result),
               body_message = message result,
               body_data = Some \<lparr>data_contactId = contactId result,
                                  data_joinDate = joinDate result,
                                  data_contactEmail = contactEmail result,
                                  data_existingJoinDate = existingJoinDate result,
                                  data_eventId = event_id stripeEvent\<rparr>\<rparr>\<rparr>"

definition error_response :: "js_error \<Rightarrow> response" where
  "error_response error =
     \<lparr>statusCode = 500,
      body = \<lparr>status = ''error'', body_action = None,
               body_message = error_message error, body_data = None\<rparr>\<rparr>"

text \<open>
  The body of the \<^verbatim>\<open>try\<close> block of \<^verbatim>\<open>exports.main\<close>. \<open>Client\<close> is the constructor
  \<^verbatim>\<open>new hubspot.Client({ accessToken })\<close>. The email is read from \<^verbatim>\<open>context.body\<close>
  itself; type, id and timestamp are read from \<open>stripeEvent\<close>, the body re-parsed from
  its own JSON text. Logging is left out.
\<close>

definition main_try ::
  "(js_value \<Rightarrow> 'w hubspot_client) \<Rightarrow> function_context \<Rightarrow> 'w state \<Rightarrow> (js_error + unit) \<times> 'w state" where
  "main_try Client ctx s =
     (let hubspotToken = secrets_joinDateKey ctx
      in if \<not> truthy hubspotToken
         then (Inl (Error ''Missing required secret: joinDateKey''), s)
         else
           let hubspotClient = Client hubspotToken
           in case call_getAll hubspotClient s of
                (Inl apiError, s1) \<Rightarrow>
                  (Inl (Error (''HubSpot authentication failed: '' @ error_message apiError)), s1)
              | (Inr testResult, s1) \<Rightarrow>
                  (case customer_details_email (request_body ctx) of
                     Inl error \<Rightarrow> (Inl error, s1)
                   | Inr customerEmail \<Rightarrow>
                       if \<not> truthy customerEmail
                       then (Inl (Error ''No customer email found in webhook data''), s1)
                       else
                         let stripeEvent = JSON_round_trip (request_body ctx)
                         in if event_type stripeEvent \<noteq> JStr ''checkout.session.completed''
                            then (Inr (), sendResponse (ignored_response stripeEvent) s1)
                            else
                              (case processJoinDateMapping hubspotClient stripeEvent
                                      customerEmail s1 of
                                 (Inl error, s2) \<Rightarrow> (Inl error, s2)
                               | (Inr result, s2) \<Rightarrow>
                                   (Inr (), sendResponse (success_response stripeEvent result) s2))))"

text \<open>
  \<^verbatim>\<open>exports.main\<close>: the \<^verbatim>\<open>try\<close> block and its \<^verbatim>\<open>catch\<close>. The result is \<open>Inl\<close> when
  an error leaves the function, and the final state otherwise.
\<close>

definition main ::
  "(js_value \<Rightarrow> 'w hubspot_client) \<Rightarrow> function_context \<Rightarrow> 'w state \<Rightarrow> js_error + 'w state" where
  "main Client ctx s =
     (case main_try Client ctx s of
        (Inl error, s') \<Rightarrow> Inr (sendResponse (error_response error) s')
      | (Inr u, s') \<Rightarrow> Inr s')"

section \<open>A CRM that stores what it is sent\<close>

text \<open>
  For the properties that relate two invocations, the external system is taken to be a
  store of contacts by email: the properties read succeeds, a search returns the first
  contact with the email (the request's \<^verbatim>\<open>limit: 1\<close>) in the flat or in the wrapped
  shape, and an update sets \<^verbatim>\<open>join_date\<close> on the contacts with the identifier, failing
  when there is none.
\<close>

type_synonym crm_store = "(string \<times> contact) list"

definition store_search :: "js_value \<Rightarrow> crm_store \<Rightarrow> contact list" where
  "store_search email st = take 1 (map snd (filter (\<lambda>row. JStr (fst row) = email) st))"

definition store_update :: "string \<Rightarrow> string \<Rightarrow> crm_store \<Rightarrow> crm_store" where
  "store_update i d st =
     map (\<lambda>row. if contact_id (snd row) = i
                then (fst row, (snd row)\<lparr>properties := \<lparr>join_date = JStr d\<rparr>\<rparr>)
                else row) st"

definition store_response :: "bool \<Rightarrow> contact list \<Rightarrow> search_response" where
  "store_response wrapped rs =
     (if wrapped
      then \<lparr>results = None, search_body = Some \<lparr>body_results = Some rs\<rparr>\<rparr>
      else \<lparr>results = Some rs, search_body = None\<rparr>)"

definition store_client :: "bool \<Rightarrow> crm_store hubspot_client" where
  "store_client wrapped =
     \<lparr>coreApi_getAll = (\<lambda>st. (Inr (), st)),
      searchApi_doSearch =
        (\<lambda>email st. (Inr (Some (store_response wrapped (store_search email st))), st)),
      basicApi_update =
        (\<lambda>i d st. if i \<in> set (map (\<lambda>row. contact_id (snd row)) st)
                   then (Inr (), store_update i d st)
                   else (Inl (Error ''resource not found''), st))\<rparr>"

text \<open>The \<^verbatim>\<open>join_date\<close> the store holds for the contact an email resolves to.\<close>

definition stored_join_date :: "crm_store \<Rightarrow> js_value \<Rightarrow> js_value option" where
  "stored_join_date st email = map_option (\<lambda>c. join_date (properties c)) (first_or_null (store_search email st))"

section \<open>Calls issued by one invocation, and the scenarios of the specification\<close>

text \<open>The calls an invocation adds to the log: those of the final state after those of the first.\<close>

definition new_calls :: "'w state \<Rightarrow> 'w state \<Rightarrow> api_call list" where
  "new_calls s s' = drop (length (calls s)) (calls s')"

text \<open>
  The store of the specification's scenarios: one contact, found under
  \<^verbatim>\<open>a@example.com\<close>, with a given \<^verbatim>\<open>join_date\<close>; and an event created at
  2025-07-20T00:00:00Z with a given type and a given email.
\<close>

definition scenario_contact :: "js_value \<Rightarrow> contact" where
  "scenario_contact jd = \<lparr>contact_id = ''104951'', properties = \<lparr>join_date = jd\<rparr>\<rparr>"

definition scenario_state :: "js_value \<Rightarrow> crm_store state" where
  "scenario_state jd =
     \<lparr>world = [(''a@example.com'', scenario_contact jd)], calls = [], sent = []\<rparr>"

definition scenario_event :: "js_value \<Rightarrow> js_error + js_value \<Rightarrow> stripe_event" where
  "scenario_event ty email =
     \<lparr>event_type = ty, event_id = JStr ''evt_1'', created = Num 1752979200,
      customer_details_email = email\<rparr>"

definition scenario_context :: "js_value \<Rightarrow> js_error + js_value \<Rightarrow> function_context" where
  "scenario_context ty email =
     \<lparr>secrets_joinDateKey = JStr ''token'', request_body = scenario_event ty email\<rparr>"

text \<open>The client constructor of the scenarios: whatever the token, the store's client.\<close>

definition store_Client :: "bool \<Rightarrow> js_value \<Rightarrow> crm_store hubspot_client" where
  "store_Client wrapped accessToken = store_client wrapped"

text \<open>
  A client that answers every search with one given response, for the shapes of
  response that the store never gives; and a state for it.
\<close>

definition answering_client :: "search_response option \<Rightarrow> unit hubspot_client" where
  "answering_client sr =
     \<lparr>coreApi_getAll = (\<lambda>w. (Inr (), w)),
      searchApi_doSearch = (\<lambda>email w. (Inr sr, w)),
      basicApi_update = (\<lambda>i d w. (Inr (), w))\<rparr>"

definition empty_state :: "unit state" where
  "empty_state = \<lparr>world = (), calls = [], sent = []\<rparr>"

section \<open>Calendar dates, as the specification words them\<close>

text \<open>
  The specification asks for the calendar date of the instant in \<^verbatim>\<open>YYYY-MM-DD\<close> form.
  The form: ten characters, digits but for the hyphens at the fifth and the eighth
  place.
\<close>

definition is_digit :: "char \<Rightarrow> bool" where
  "is_digit c = (c \<in> set ''0123456789'')"

fun is_yyyy_mm_dd :: "string \<Rightarrow> bool" where
  "is_yyyy_mm_dd [y1, y2, y3, y4, h1, m1, m2, h2, d1, d2] =
     (is_digit y1 \<and> is_digit y2 \<and> is_digit y3 \<and> is_digit y4 \<and> h1 = CHR ''-''
      \<and> is_digit m1 \<and> is_digit m2 \<and> h2 = CHR ''-'' \<and> is_digit d1 \<and> is_digit d2)"
| "is_yyyy_mm_dd s = False"

text \<open>
  The calendar: the lengths of the twelve months of a year that has \<open>l\<close> leap days
  (0 or 1), the dates that exist, and the number of days from 1970-01-01 to a date,
  counted as the days before its year, the days of the months before its month, and
  the days before it in its month.
\<close>

definition month_lengths :: "int \<Rightarrow> int list" where
  "month_lengths l = [31, 28 + l, 31, 30, 31, 30, 31, 31, 30, 31, 30, 31]"

definition leap_days :: "int \<Rightarrow> int" where
  "leap_days y = DaysInYear y - 365"

definition valid_date :: "int \<Rightarrow> int \<Rightarrow> int \<Rightarrow> bool" where
  "valid_date y m d =
     (1 \<le> m \<and> m \<le> 12 \<and> 1 \<le> d \<and> d \<le> month_lengths (leap_days y) ! nat (m - 1))"

definition civil_day :: "int \<Rightarrow> int \<Rightarrow> int \<Rightarrow> int" where
  "civil_day y m d =
     DayFromYear y + sum_list (take (nat (m - 1)) (month_lengths (leap_days y))) + (d - 1)"

section \<open>The external calls and responses of each function\<close>


lemma call_doSearch_effect:
  "call_doSearch client email s = (r, s') \<Longrightarrow>
     calls s' = calls s @ [DoSearch email] \<and> sent s' = sent s"
  by (auto simp: call_doSearch_def split: prod.splits)

lemma call_update_effect:
  "call_update client i d s = (r, s') \<Longrightarrow>
     calls s' = calls s @ [Update i d] \<and> sent s' = sent s"
  by (auto simp: call_update_def split: prod.splits)

lemma findContactByEmail_effect:
  "findContactByEmail client email s = (r, s') \<Longrightarrow>
     calls s' = calls s @ [DoSearch email] \<and> sent s' = sent s"
  by (auto simp: findContactByEmail_def split: prod.splits sum.splits
           dest: call_doSearch_effect)

lemma processJoinDateMapping_effect:
  assumes "processJoinDateMapping client ev email s = (r, s')"
  shows "sent s' = sent s \<and>
         (calls s' = calls s \<or> calls s' = calls s @ [DoSearch email]
          \<or> (\<exists>i d. calls s' = calls s @ [DoSearch email, Update i d]))"
  using assms
  by (auto simp: processJoinDateMapping_def
           split: if_splits prod.splits sum.splits option.splits
           dest!: findContactByEmail_effect call_update_effect)

lemma event_type_round_trip [simp]: "event_type (JSON_round_trip ev) = event_type ev"
  by (simp add: JSON_round_trip_def)

lemma event_id_round_trip [simp]: "event_id (JSON_round_trip ev) = event_id ev"
  by (simp add: JSON_round_trip_def)

lemma ignored_response_round_trip [simp]:
  "ignored_response (JSON_round_trip ev) = ignored_response ev"
  by (simp add: ignored_response_def)

lemma finite_double_small: "\<bar>n\<bar> \<le> 8640000000000 \<Longrightarrow> finite_double n"
proof -
  assume a: "\<bar>n\<bar> \<le> 8640000000000"
  have "(8640000000000::int) < 2 ^ 1024 - 2 ^ 970"
    by simp
  with a show ?thesis
    unfolding finite_double_def by linarith
qed


section \<open>Evaluating the scenarios\<close>

lemma scenario_round_trip [simp]:
  "JSON_round_trip (scenario_event ty email) = scenario_event ty email"
  by (simp add: JSON_round_trip_def scenario_event_def finite_double_small)

lemmas scenario_defs =
  scenario_contact_def scenario_state_def scenario_event_def scenario_context_def
  store_Client_def JSON_round_trip_def finite_double_def

lemmas crm_defs =
  store_client_def store_search_def store_update_def store_response_def
  call_getAll_def call_doSearch_def call_update_def
  findContactByEmail_def select_results_def first_or_null_def

lemmas date_eval =
  formatJoinDate_def new_Date_def toISOString_def split_T_0_def iso_date_def iso_time_def
  iso_year_def ToZeroPaddedDecimalString_def decimal.simps digit_def
  YearFromTime_def YearFromDay_def Day_def msPerDay_def DayFromYear_def
  MonthFromTime_def DateFromTime_def DayWithinYear_def InLeapYear_def DaysInYear_def
  HourFromTime_def MinFromTime_def SecFromTime_def msFromTime_def Let_def

lemma scenario_date: "formatJoinDate (Num 1752979200) = Inr ''2025-07-20''"
  by (simp add: date_eval)

text \<open>
  A timestamp that is not a finite number comes back from the re-parse as \<^verbatim>\<open>null\<close>,
  which the multiplication reads as 0: the handler formats the epoch.
\<close>

lemma infinite_created_round_trip:
  "formatJoinDate (created (JSON_round_trip (ev\<lparr>created := Num (10 ^ 309)\<rparr>)))
     = Inr ''1970-01-01''"
  by (simp add: JSON_round_trip_def finite_double_def date_eval)

section \<open>The write-once rule\<close>

text \<open>
  Claim C1 (write-once invariant). Let the lookup by a non-empty email resolve to a
  contact whose \<^verbatim>\<open>join_date\<close> is a non-empty string. Then for every event whose
  timestamp can be formatted, \<^verbatim>\<open>processJoinDateMapping\<close> returns the result
  \<^verbatim>\<open>skipped\<close> with the contact's identifier and the existing value, in the state the
  lookup left; and for every event whatsoever, also one whose timestamp cannot be
  formatted, the invocation issues no update call.
\<close>

theorem write_once:
  assumes "findContactByEmail client email s = (Inr (Some c), s1)"
    and "truthy email"
    and "join_date (properties c) = JStr v" and "v \<noteq> []"
  shows "(\<forall>jd. formatJoinDate (created ev) = Inr jd \<longrightarrow>
            processJoinDateMapping client ev email s =
              (Inr \<lparr>success = True, action = ''skipped'',
                     message = ''Join date already exists'',
                     contactId = contact_id c, joinDate = JUndefined,
                     contactEmail = JUndefined, existingJoinDate = JStr v\<rparr>, s1))
         \<and> filter is_update (new_calls s (snd (processJoinDateMapping client ev email s))) = []"
proof -
  have c: "calls s1 = calls s @ [DoSearch email]"
    using findContactByEmail_effect [OF assms(1)] by simp
  show ?thesis
  proof (cases "formatJoinDate (created ev)")
    case (Inl e)
    then show ?thesis
      using assms by (simp add: processJoinDateMapping_def new_calls_def)
  next
    case (Inr jd)
    then show ?thesis
      using assms c by (simp add: processJoinDateMapping_def new_calls_def)
  qed
qed

theorem write_once_witness:
  "processJoinDateMapping (store_client False) (scenario_event JNull (Inr JNull))
     (JStr ''a@example.com'') (scenario_state (JStr ''2025-07-19''))
   = (Inr \<lparr>success = True, action = ''skipped'', message = ''Join date already exists'',
            contactId = ''104951'', joinDate = JUndefined, contactEmail = JUndefined,
            existingJoinDate = JStr ''2025-07-19''\<rparr>,
      (scenario_state (JStr ''2025-07-19''))\<lparr>calls := [DoSearch (JStr ''a@example.com'')]\<rparr>)"
proof -
  have h: "findContactByEmail (store_client False) (JStr ''a@example.com'')
             (scenario_state (JStr ''2025-07-19''))
           = (Inr (Some (scenario_contact (JStr ''2025-07-19''))),
              (scenario_state (JStr ''2025-07-19''))\<lparr>calls := [DoSearch (JStr ''a@example.com'')]\<rparr>)"
    by (simp add: crm_defs scenario_defs)
  have d: "formatJoinDate (created (scenario_event JNull (Inr JNull))) = Inr ''2025-07-20''"
    by (simp add: scenario_event_def scenario_date)
  show ?thesis
    using write_once [OF h, of "''2025-07-19''" "scenario_event JNull (Inr JNull)"] d
    by (simp add: scenario_contact_def)
qed

text \<open>
  Claim C5 (at most one mutation). Every invocation of \<^verbatim>\<open>processJoinDateMapping\<close>,
  for any client behaviour, event, email and state, and on the error paths too, extends
  the log of external calls by a list that holds at most one update call.
\<close>

theorem at_most_one_mutation:
  "calls (snd (processJoinDateMapping client ev email s))
     = calls s @ new_calls s (snd (processJoinDateMapping client ev email s))
   \<and> length (filter is_update
               (new_calls s (snd (processJoinDateMapping client ev email s)))) \<le> 1"
proof (cases "processJoinDateMapping client ev email s")
  case (Pair r s')
  from processJoinDateMapping_effect [OF Pair] show ?thesis
    unfolding Pair new_calls_def by auto
qed

theorem at_most_one_mutation_witness:
  "length (filter is_update
     (new_calls (scenario_state JNull)
        (snd (processJoinDateMapping (store_client False) (scenario_event JNull (Inr JNull))
                (JStr ''a@example.com'') (scenario_state JNull))))) \<le> 1"
  using at_most_one_mutation
          [of "store_client False" "scenario_event JNull (Inr JNull)" "JStr ''a@example.com''"
              "scenario_state JNull"]
  by simp

section \<open>The lookup\<close>

text \<open>
  Claim C7 (lookup shape tolerance). When the search answers with a result list, at
  the top level or nested under \<^verbatim>\<open>body\<close>, \<^verbatim>\<open>findContactByEmail\<close> returns the same
  thing for both shapes: the first record of a non-empty list, and \<^verbatim>\<open>null\<close> for the
  empty list, after the one search call.
\<close>

theorem lookup_shape_tolerance:
  assumes "searchApi_doSearch client email (world s) = (Inr (Some resp), w)"
    and "resp = \<lparr>results = Some rs, search_body = None\<rparr>
         \<or> resp = \<lparr>results = None, search_body = Some \<lparr>body_results = Some rs\<rparr>\<rparr>"
  shows "findContactByEmail client email s =
           (Inr (case rs of [] \<Rightarrow> None | c # cs \<Rightarrow> Some c),
            s\<lparr>world := w, calls := calls s @ [DoSearch email]\<rparr>)"
  using assms
  by (auto simp: findContactByEmail_def call_doSearch_def select_results_def
                 first_or_null_def split: list.splits)

theorem lookup_shape_tolerance_witness:
  "findContactByEmail (store_client True) (JStr ''a@example.com'') (scenario_state JNull)
     = (Inr (Some (scenario_contact JNull)),
        (scenario_state JNull)\<lparr>world := world (scenario_state JNull),
           calls := calls (scenario_state JNull) @ [DoSearch (JStr ''a@example.com'')]\<rparr>)
   \<and> findContactByEmail (store_client False) (JStr ''b@example.com'') (scenario_state JNull)
     = (Inr None,
        (scenario_state JNull)\<lparr>world := world (scenario_state JNull),
           calls := calls (scenario_state JNull) @ [DoSearch (JStr ''b@example.com'')]\<rparr>)"
proof -
  have a: "searchApi_doSearch (store_client True) (JStr ''a@example.com'')
             (world (scenario_state JNull))
           = (Inr (Some \<lparr>results = None,
                          search_body = Some \<lparr>body_results = Some [scenario_contact JNull]\<rparr>\<rparr>),
              world (scenario_state JNull))"
    by (simp add: crm_defs scenario_defs)
  have b: "searchApi_doSearch (store_client False) (JStr ''b@example.com'')
             (world (scenario_state JNull))
           = (Inr (Some \<lparr>results = Some [], search_body = None\<rparr>),
              world (scenario_state JNull))"
    by (simp add: crm_defs scenario_defs)
  show ?thesis
    using lookup_shape_tolerance [OF a, of "[scenario_contact JNull]"]
      lookup_shape_tolerance [OF b, of "[]"]
    by simp
qed

text \<open>
  Claim C10 (lookup shape precedence). A response with a top-level result list is
  answered from that list whatever it carries under \<^verbatim>\<open>body\<close>, also when the
  top-level list is empty (an empty array is truthy); a response that is absent, has
  neither list, or has only an empty nested list gives \<^verbatim>\<open>null\<close> and no error.
\<close>

theorem lookup_shape_precedence:
  assumes "searchApi_doSearch client email (world s) = (Inr sr, w)"
  shows "(sr = Some \<lparr>results = Some direct, search_body = b\<rparr> \<longrightarrow>
            fst (findContactByEmail client email s)
              = Inr (case direct of [] \<Rightarrow> None | c # cs \<Rightarrow> Some c))
         \<and> (sr = None \<or> sr = Some \<lparr>results = None, search_body = None\<rparr>
             \<or> sr = Some \<lparr>results = None, search_body = Some \<lparr>body_results = None\<rparr>\<rparr>
             \<or> sr = Some \<lparr>results = None, search_body = Some \<lparr>body_results = Some []\<rparr>\<rparr>
             \<longrightarrow> fst (findContactByEmail client email s) = Inr None)"
  using assms
  by (auto simp: findContactByEmail_def call_doSearch_def select_results_def
                 first_or_null_def split: list.splits)

theorem lookup_shape_precedence_witness:
  "fst (findContactByEmail
          (answering_client
             (Some \<lparr>results = Some [scenario_contact JNull],
                    search_body =
                      Some \<lparr>body_results = Some [scenario_contact (JStr ''2025-07-19'')]\<rparr>\<rparr>))
          (JStr ''a@example.com'') empty_state)
     = Inr (Some (scenario_contact JNull))
   \<and> fst (findContactByEmail
          (answering_client
             (Some \<lparr>results = Some [],
                    search_body =
                      Some \<lparr>body_results = Some [scenario_contact (JStr ''2025-07-19'')]\<rparr>\<rparr>))
          (JStr ''a@example.com'') empty_state)
     = Inr None
   \<and> fst (findContactByEmail (answering_client None) (JStr ''a@example.com'') empty_state)
     = Inr None
   \<and> fst (findContactByEmail
          (answering_client (Some \<lparr>results = None, search_body = None\<rparr>))
          (JStr ''a@example.com'') empty_state)
     = Inr None
   \<and> fst (findContactByEmail
          (answering_client
             (Some \<lparr>results = None, search_body = Some \<lparr>body_results = None\<rparr>\<rparr>))
          (JStr ''a@example.com'') empty_state)
     = Inr None"
proof -
  have a: "searchApi_doSearch (answering_client sr) (JStr ''a@example.com'')
             (world empty_state) = (Inr sr, ())" for sr
    by (simp add: answering_client_def)
  have both: "fst (findContactByEmail
          (answering_client
             (Some \<lparr>results = Some [scenario_contact JNull],
                    search_body =
                      Some \<lparr>body_results = Some [scenario_contact (JStr ''2025-07-19'')]\<rparr>\<rparr>))
          (JStr ''a@example.com'') empty_state)
     = Inr (Some (scenario_contact JNull))"
    using lookup_shape_precedence
      [OF a [of "Some \<lparr>results = Some [scenario_contact JNull],
                           search_body = Some \<lparr>body_results = Some [scenario_contact (JStr ''2025-07-19'')]\<rparr>\<rparr>"],
         of "[scenario_contact JNull]"
         "Some \<lparr>body_results = Some [scenario_contact (JStr ''2025-07-19'')]\<rparr>"]
    by simp
  have empty_first: "fst (findContactByEmail
          (answering_client
             (Some \<lparr>results = Some [],
                    search_body =
                      Some \<lparr>body_results = Some [scenario_contact (JStr ''2025-07-19'')]\<rparr>\<rparr>))
          (JStr ''a@example.com'') empty_state)
     = Inr None"
    using lookup_shape_precedence
      [OF a [of "Some \<lparr>results = Some [], search_body = Some \<lparr>body_results = Some [scenario_contact (JStr ''2025-07-19'')]\<rparr>\<rparr>"],
         of "[]"
         "Some \<lparr>body_results = Some [scenario_contact (JStr ''2025-07-19'')]\<rparr>"]
    by simp
  have absent: "fst (findContactByEmail (answering_client None) (JStr ''a@example.com'')
                  empty_state) = Inr None"
    using lookup_shape_precedence [OF a [of None]] by simp
  have neither: "fst (findContactByEmail
          (answering_client (Some \<lparr>results = None, search_body = None\<rparr>))
          (JStr ''a@example.com'') empty_state)
     = Inr None"
    using lookup_shape_precedence [OF a [of "Some \<lparr>results = None, search_body = None\<rparr>"]]
    by simp
  have no_nested: "fst (findContactByEmail
          (answering_client
             (Some \<lparr>results = None, search_body = Some \<lparr>body_results = None\<rparr>\<rparr>))
          (JStr ''a@example.com'') empty_state)
     = Inr None"
    using lookup_shape_precedence
      [OF a [of "Some \<lparr>results = None,
                           search_body = Some \<lparr>body_results = None\<rparr>\<rparr>"]]
    by simp
  from both empty_first absent neither no_nested show ?thesis
    by (intro conjI)
qed

section \<open>The handler boundary\<close>



section \<open>The characters of a formatted date\<close>

lemma digit_in: "digit n \<in> set ''0123456789''"
  unfolding digit_def by (rule nth_mem) simp

lemma decimal_digits: "set (decimal n) \<subseteq> set ''0123456789''"
proof (induction n rule: decimal.induct)
  case (1 n)
  show ?case
  proof (cases "n < 10")
    case True
    then show ?thesis using digit_in [of n] by (subst decimal.simps) simp
  next
    case False
    then show ?thesis using 1 digit_in [of n] by (subst decimal.simps) simp
  qed
qed

lemma decimal_nonempty: "decimal n \<noteq> []"
  by (subst decimal.simps) simp

lemma no_T_decimal: "CHR ''T'' \<notin> set (decimal n)"
proof -
  have "CHR ''T'' \<notin> set ''0123456789''" by simp
  then show ?thesis using decimal_digits [of n] by blast
qed

lemma no_T_padded: "CHR ''T'' \<notin> set (ToZeroPaddedDecimalString n w)"
  by (simp add: ToZeroPaddedDecimalString_def Let_def no_T_decimal)

lemma no_T_iso_year: "CHR ''T'' \<notin> set (iso_year y)"
  by (simp add: iso_year_def no_T_padded)

lemma no_T_iso_date: "CHR ''T'' \<notin> set (iso_date t)"
  by (simp add: iso_date_def no_T_iso_year no_T_padded)

lemma padded_nonempty: "ToZeroPaddedDecimalString n w \<noteq> []"
  by (simp add: ToZeroPaddedDecimalString_def Let_def decimal_nonempty)

lemma iso_date_nonempty: "iso_date t \<noteq> []"
  by (simp add: iso_date_def)

lemma split_T_0_iso: "split_T_0 (iso_date t @ ''T'' @ rest) = iso_date t"
proof -
  have "\<And>c. c \<in> set (iso_date t) \<Longrightarrow> c \<noteq> CHR ''T''"
    using no_T_iso_date [of t] by auto
  then have "takeWhile (\<lambda>c. c \<noteq> CHR ''T'') (iso_date t @ ''T'' @ rest)
               = iso_date t @ takeWhile (\<lambda>c. c \<noteq> CHR ''T'') (''T'' @ rest)"
    by (rule takeWhile_append2)
  then show ?thesis
    by (simp add: split_T_0_def)
qed

lemma formatJoinDate_Num:
  "formatJoinDate (Num t) =
     (if \<bar>t * 1000\<bar> > 8640000000000000
      then Inl (Error ''Date formatting failed: Invalid time value'')
      else Inr (iso_date (t * 1000)))"
  using split_T_0_iso [of "t * 1000" "iso_time (t * 1000) @ ''Z''"]
  by (simp add: formatJoinDate_def new_Date_def toISOString_def)

lemma formatJoinDate_NonNumeric:
  "formatJoinDate NonNumeric = Inl (Error ''Date formatting failed: Invalid time value'')"
  by (simp add: formatJoinDate_def new_Date_def toISOString_def)

lemma formatJoinDate_Null: "formatJoinDate Null = Inr (iso_date 0)"
  using split_T_0_iso [of 0 "iso_time 0 @ ''Z''"]
  by (simp add: formatJoinDate_def new_Date_def toISOString_def)

lemma formatJoinDate_nonempty: "formatJoinDate ts = Inr d \<Longrightarrow> d \<noteq> []"
  by (cases ts) (auto simp: formatJoinDate_NonNumeric formatJoinDate_Null
                      formatJoinDate_Num iso_date_nonempty
                      split: if_splits)

section \<open>Two invocations in sequence\<close>

lemma store_search_update:
  "store_search email st = [c] \<Longrightarrow>
     store_search email (store_update (contact_id c) d st)
       = [c\<lparr>properties := \<lparr>join_date = JStr d\<rparr>\<rparr>]"
  by (induction st) (auto simp: store_search_def store_update_def)

lemma store_search_id:
  "store_search email st = [c] \<Longrightarrow> contact_id c \<in> set (map (\<lambda>row. contact_id (snd row)) st)"
proof -
  assume "store_search email st = [c]"
  then have "c \<in> set (take 1 (map snd (filter (\<lambda>row. JStr (fst row) = email) st)))"
    by (simp add: store_search_def)
  then have "c \<in> set (map snd (filter (\<lambda>row. JStr (fst row) = email) st))"
    by (rule in_set_takeD)
  then show ?thesis by auto
qed

text \<open>
  Claim C3 (idempotence). Against a CRM that stores what it is sent, let a non-empty
  email resolve to a contact without a \<^verbatim>\<open>join_date\<close>, and let two events have
  timestamps that can be formatted (the second the same as the first, later, or any
  other). Then the first invocation returns \<^verbatim>\<open>updated\<close> with the date of the first
  event and stores it; the second returns \<^verbatim>\<open>skipped\<close> with that date as the existing
  value and issues the search only; and the stored date after the second invocation is
  the date stored by the first.
\<close>

theorem idempotence:
  assumes "truthy email"
    and "formatJoinDate (created ev1) = Inr d1"
    and "formatJoinDate (created ev2) = Inr d2"
    and "store_search email (world s) = [c]"
    and "\<not> truthy (join_date (properties c))"
  shows "\<exists>r1 s1 r2 s2.
           processJoinDateMapping (store_client wrapped) ev1 email s = (Inr r1, s1)
           \<and> action r1 = ''updated'' \<and> joinDate r1 = JStr d1
           \<and> new_calls s s1 = [DoSearch email, Update (contact_id c) d1]
           \<and> stored_join_date (world s1) email = Some (JStr d1)
           \<and> processJoinDateMapping (store_client wrapped) ev2 email s1 = (Inr r2, s2)
           \<and> action r2 = ''skipped'' \<and> existingJoinDate r2 = JStr d1
           \<and> new_calls s1 s2 = [DoSearch email]
           \<and> stored_join_date (world s2) email = Some (JStr d1)"
proof -
  define c' where "c' = c\<lparr>properties := \<lparr>join_date = JStr d1\<rparr>\<rparr>"
  define s1 where
    "s1 = s\<lparr>world := store_update (contact_id c) d1 (world s),
             calls := calls s @ [DoSearch email, Update (contact_id c) d1]\<rparr>"
  define s2 where "s2 = s1\<lparr>calls := calls s1 @ [DoSearch email]\<rparr>"
  have ne: "d1 \<noteq> []"
    using assms(2) by (rule formatJoinDate_nonempty)
  have f1: "findContactByEmail (store_client wrapped) email s
              = (Inr (Some c), s\<lparr>calls := calls s @ [DoSearch email]\<rparr>)"
    using assms(4)
    by (simp add: findContactByEmail_def call_doSearch_def store_client_def
          store_response_def select_results_def first_or_null_def)
  have u1: "call_update (store_client wrapped) (contact_id c) d1
              (s\<lparr>calls := calls s @ [DoSearch email]\<rparr>) = (Inr (), s1)"
    using store_search_id [OF assms(4)]
    by (simp add: call_update_def store_client_def s1_def)
  have p1: "processJoinDateMapping (store_client wrapped) ev1 email s
              = (Inr \<lparr>success = True, action = ''updated'',
                       message = ''Join date successfully set'',
                       contactId = contact_id c, joinDate = JStr d1,
                       contactEmail = email, existingJoinDate = JUndefined\<rparr>, s1)"
    using assms(1,2,5) f1 u1 by (simp add: processJoinDateMapping_def)
  have w1: "store_search email (world s1) = [c']"
    using store_search_update [OF assms(4), of d1] by (simp add: s1_def c'_def)
  have f2: "findContactByEmail (store_client wrapped) email s1 = (Inr (Some c'), s2)"
    using w1
    by (simp add: findContactByEmail_def call_doSearch_def store_client_def
          store_response_def select_results_def first_or_null_def s2_def)
  have p2: "processJoinDateMapping (store_client wrapped) ev2 email s1
              = (Inr \<lparr>success = True, action = ''skipped'',
                       message = ''Join date already exists'',
                       contactId = contact_id c', joinDate = JUndefined,
                       contactEmail = JUndefined, existingJoinDate = JStr d1\<rparr>, s2)"
    using assms(1,3) f2 ne by (simp add: processJoinDateMapping_def c'_def)
  have st1: "stored_join_date (world s1) email = Some (JStr d1)"
    using w1 by (simp add: stored_join_date_def first_or_null_def c'_def)
  have st2: "stored_join_date (world s2) email = Some (JStr d1)"
    using st1 by (simp add: s2_def)
  have n1: "new_calls s s1 = [DoSearch email, Update (contact_id c) d1]"
    by (simp add: new_calls_def s1_def)
  have n2: "new_calls s1 s2 = [DoSearch email]"
    by (simp add: new_calls_def s2_def)
  show ?thesis
    using p1 p2 st1 st2 n1 n2 by simp
qed

theorem idempotence_witness:
  "\<exists>r1 s1 r2 s2.
     processJoinDateMapping (store_client True)
       (scenario_event (JStr ''checkout.session.completed'') (Inr (JStr ''a@example.com'')))
       (JStr ''a@example.com'') (scenario_state JNull) = (Inr r1, s1)
     \<and> action r1 = ''updated'' \<and> joinDate r1 = JStr ''2025-07-20''
     \<and> stored_join_date (world s1) (JStr ''a@example.com'') = Some (JStr ''2025-07-20'')
     \<and> processJoinDateMapping (store_client True)
       (scenario_event (JStr ''checkout.session.completed'') (Inr (JStr ''a@example.com'')))
       (JStr ''a@example.com'') s1 = (Inr r2, s2)
     \<and> action r2 = ''skipped'' \<and> existingJoinDate r2 = JStr ''2025-07-20''
     \<and> stored_join_date (world s2) (JStr ''a@example.com'') = Some (JStr ''2025-07-20'')"
proof -
  have d: "formatJoinDate (created (scenario_event (JStr ''checkout.session.completed'')
              (Inr (JStr ''a@example.com'')))) = Inr ''2025-07-20''"
    by (simp add: scenario_event_def scenario_date)
  have h: "store_search (JStr ''a@example.com'') (world (scenario_state JNull))
             = [scenario_contact JNull]"
    by (simp add: store_search_def scenario_defs)
  have j: "\<not> truthy (join_date (properties (scenario_contact JNull)))"
    by (simp add: scenario_contact_def)
  have e: "truthy (JStr ''a@example.com'')"
    by simp
  from idempotence [OF e d d h j, of True] show ?thesis
    by blast
qed

section \<open>What the handler does before it looks at the event type\<close>

text \<open>
  Claim C8 (missing-email abort), as stated, fails in \<^verbatim>\<open>exports.main\<close>:
  for a completed checkout without an email the handler has already issued the
  properties read (its connectivity test) when it fails with the missing-email error.
\<close>

theorem missing_email_counterexample:
  "main (store_Client False)
     (scenario_context (JStr ''checkout.session.completed'') (Inr JUndefined))
     (scenario_state JNull)
   = Inr ((scenario_state JNull)
            \<lparr>calls := [GetAll],
             sent := [error_response (Error ''No customer email found in webhook data'')]\<rparr>)
   \<and> new_calls (scenario_state JNull)
        ((scenario_state JNull)
            \<lparr>calls := [GetAll],
             sent := [error_response (Error ''No customer email found in webhook data'')]\<rparr>)
      = [GetAll]"
  by (simp add: main_def main_try_def sendResponse_def crm_defs scenario_defs new_calls_def)

text \<open>
  Claim C8, amended. \<^verbatim>\<open>processJoinDateMapping\<close> called with a missing or empty email
  fails with its missing-email error and leaves the state as it was: no external call.
  In \<^verbatim>\<open>exports.main\<close>, with the secret present and the connectivity test passed,
  every event that lacks a non-empty customer email is answered with status 500 and
  status \<^verbatim>\<open>error\<close>, and the connectivity test is the only external call: no search
  and no update. When \<^verbatim>\<open>customer_details.email\<close> reads as missing or empty, the
  response carries the handler's missing-email message; when the email cannot be read
  because \<^verbatim>\<open>customer_details\<close> itself is absent, only the status is stated.
\<close>

theorem missing_email_abort:
  "(\<not> truthy email \<longrightarrow>
      processJoinDateMapping client ev email s
        = (Inl (Error ''No customer email found in checkout session''), s))
   \<and> (truthy (secrets_joinDateKey ctx)
        \<and> coreApi_getAll (Client (secrets_joinDateKey ctx)) (world s) = (Inr u, w)
        \<and> customer_details_email (request_body ctx) = Inr e \<and> \<not> truthy e \<longrightarrow>
      main Client ctx s
        = Inr (s\<lparr>world := w, calls := calls s @ [GetAll],
                 sent := sent s @ [error_response
                                     (Error ''No customer email found in webhook data'')]\<rparr>))
   \<and> (truthy (secrets_joinDateKey ctx)
        \<and> coreApi_getAll (Client (secrets_joinDateKey ctx)) (world s) = (Inr u, w)
        \<and> (customer_details_email (request_body ctx) = Inl err
            \<or> customer_details_email (request_body ctx) = Inr e \<and> \<not> truthy e) \<longrightarrow>
      (\<exists>resp. main Client ctx s
                = Inr (s\<lparr>world := w, calls := calls s @ [GetAll], sent := sent s @ [resp]\<rparr>)
              \<and> statusCode resp = 500 \<and> status (body resp) = ''error''))"
  by (auto simp: processJoinDateMapping_def main_def main_try_def call_getAll_def
        sendResponse_def error_response_def)

theorem missing_email_abort_witness:
  "processJoinDateMapping (store_client False) (scenario_event JNull (Inr (JStr '''')))
     (JStr '''') (scenario_state JNull)
   = (Inl (Error ''No customer email found in checkout session''), scenario_state JNull)
   \<and> main (store_Client False)
       (scenario_context (JStr ''checkout.session.completed'') (Inr (JStr '''')))
       (scenario_state JNull)
     = Inr ((scenario_state JNull)
              \<lparr>world := world (scenario_state JNull),
               calls := calls (scenario_state JNull) @ [GetAll],
               sent := sent (scenario_state JNull)
                 @ [error_response (Error ''No customer email found in webhook data'')]\<rparr>)
   \<and> (\<exists>resp. main (store_Client False)
         (scenario_context (JStr ''checkout.session.completed'')
            (Inl (TypeError ''Cannot read properties of undefined (reading 'email')'')))
         (scenario_state JNull)
       = Inr ((scenario_state JNull)
                \<lparr>world := world (scenario_state JNull),
                 calls := calls (scenario_state JNull) @ [GetAll],
                 sent := sent (scenario_state JNull) @ [resp]\<rparr>)
       \<and> statusCode resp = 500 \<and> status (body resp) = ''error'')"
proof -
  have g: "coreApi_getAll (store_Client False (secrets_joinDateKey (scenario_context ty em)))
             (world (scenario_state JNull)) = (Inr (), world (scenario_state JNull))" for ty em
    by (simp add: store_Client_def store_client_def)
  have k: "truthy (secrets_joinDateKey (scenario_context ty em))" for ty em
    by (simp add: scenario_context_def)
  have e1: "customer_details_email (request_body (scenario_context ty em)) = em" for ty em
    by (simp add: scenario_context_def scenario_event_def)
  note a = missing_email_abort
    [of "JStr ''''" "store_client False" "scenario_event JNull (Inr (JStr ''''))"
        "scenario_state JNull"
        "scenario_context (JStr ''checkout.session.completed'') (Inr (JStr ''''))"
        "store_Client False" "()" "world (scenario_state JNull)" "JStr ''''"]
  note b = missing_email_abort
    [of "JStr ''''" "store_client False" "scenario_event JNull (Inr (JStr ''''))"
        "scenario_state JNull"
        "scenario_context (JStr ''checkout.session.completed'')
           (Inl (TypeError ''Cannot read properties of undefined (reading 'email')''))"
        "store_Client False" "()" "world (scenario_state JNull)" "JStr ''''"
        "TypeError ''Cannot read properties of undefined (reading 'email')''"]
  show ?thesis
    using a b by (simp add: g k e1)
qed




text \<open>
  Claim C9 (side effects before the type check). With the secret present, the first
  external call of every invocation is the properties read. When it fails, the
  response is the authentication error; when it passes and reading the email throws,
  the response is that error; when the email read is missing or empty, the response is
  the missing-email error. All three hold whatever the event type is, so an event that
  is not a completed checkout can be answered with \<^verbatim>\<open>error\<close>.
\<close>

theorem pre_type_check_effects:
  assumes "truthy (secrets_joinDateKey ctx)"
  shows "\<exists>s' rest. main Client ctx s = Inr s' \<and> calls s' = calls s @ GetAll # rest
           \<and> (\<forall>e w. coreApi_getAll (Client (secrets_joinDateKey ctx)) (world s) = (Inl e, w)
                 \<longrightarrow> s' = s\<lparr>world := w, calls := calls s @ [GetAll],
                          sent := sent s @ [error_response
                            (Error (''HubSpot authentication failed: '' @ error_message e))]\<rparr>)
           \<and> (\<forall>u w e. coreApi_getAll (Client (secrets_joinDateKey ctx)) (world s) = (Inr u, w)
                   \<and> customer_details_email (request_body ctx) = Inl e
                 \<longrightarrow> s' = s\<lparr>world := w, calls := calls s @ [GetAll],
                          sent := sent s @ [error_response e]\<rparr>)
           \<and> (\<forall>u w v. coreApi_getAll (Client (secrets_joinDateKey ctx)) (world s) = (Inr u, w)
                   \<and> customer_details_email (request_body ctx) = Inr v \<and> \<not> truthy v
                 \<longrightarrow> s' = s\<lparr>world := w, calls := calls s @ [GetAll],
                          sent := sent s @ [error_response
                            (Error ''No customer email found in webhook data'')]\<rparr>)"
proof (cases "coreApi_getAll (Client (secrets_joinDateKey ctx)) (world s)")
  case (Pair r w0)
  define s1 where "s1 = s\<lparr>world := w0, calls := calls s @ [GetAll]\<rparr>"
  have g: "call_getAll (Client (secrets_joinDateKey ctx)) s = (r, s1)"
    using Pair by (simp add: call_getAll_def s1_def)
  have c1: "calls s1 = calls s @ [GetAll]" and t1: "sent s1 = sent s"
    by (simp_all add: s1_def)
  show ?thesis
  proof (cases r)
    case (Inl e)
    with Pair g assms show ?thesis
      by (simp add: main_def main_try_def sendResponse_def s1_def)
  next
    case (Inr u)
    show ?thesis
    proof (cases "customer_details_email (request_body ctx)")
      case (Inl e)
      with Pair g Inr assms show ?thesis
        by (simp add: main_def main_try_def sendResponse_def s1_def)
    next
      case email: (Inr v)
      show ?thesis
      proof (cases "truthy v")
        case False
        with Pair g Inr email assms show ?thesis
          by (simp add: main_def main_try_def sendResponse_def s1_def)
      next
        case True
        show ?thesis
        proof (cases "event_type (request_body ctx) = JStr ''checkout.session.completed''")
          case False
          with Pair g Inr email True assms c1 show ?thesis
            by (simp add: main_def main_try_def sendResponse_def)
        next
          case sentinel: True
          obtain r2 s2 where p: "processJoinDateMapping (Client (secrets_joinDateKey ctx))
                                   (JSON_round_trip (request_body ctx)) v s1 = (r2, s2)"
            by (cases "processJoinDateMapping (Client (secrets_joinDateKey ctx))
                         (JSON_round_trip (request_body ctx)) v s1") auto
          from processJoinDateMapping_effect [OF p] c1
          have "\<exists>rest. calls s2 = calls s @ GetAll # rest"
            by auto
          with Pair g Inr email True sentinel assms p show ?thesis
            by (cases r2) (simp_all add: main_def main_try_def sendResponse_def)
        qed
      qed
    qed
  qed
qed

theorem pre_type_check_effects_witness:
  "main (store_Client False)
     (scenario_context (JStr ''invoice.paid'') (Inr JUndefined))
     (scenario_state JNull)
   = Inr ((scenario_state JNull)
            \<lparr>calls := [GetAll],
             sent := [error_response (Error ''No customer email found in webhook data'')]\<rparr>)"
proof -
  have t: "truthy (secrets_joinDateKey
             (scenario_context (JStr ''invoice.paid'') (Inr JUndefined)))"
    by (simp add: scenario_defs)
  show ?thesis
    using pre_type_check_effects [OF t, of "store_Client False" "scenario_state JNull"]
    by (auto simp: scenario_defs store_client_def)
qed

section \<open>The calendar of the runtime\<close>

text \<open>
  A year begins its number of days after the one before, \<open>YearFromDay\<close> is the largest
  year that begins on or before a day, and the month and date of a time value name
  the day of its year: year, month and date are the calendar date of the day.
\<close>

lemma div_bounds:
  fixes x k :: int
  assumes "0 < k"
  shows "k * (x div k) \<le> x" "x - (k - 1) \<le> k * (x div k)"
proof -
  have e: "k * (x div k) + x mod k = x"
    by (rule mult_div_mod_eq)
  have r: "0 \<le> x mod k" "x mod k < k"
    using assms by simp_all
  show "k * (x div k) \<le> x" using e r by linarith
  show "x - (k - 1) \<le> k * (x div k)" using e r by linarith
qed

lemma DayFromYear_bounds:
  "146097 * (y - 1970) - 506 \<le> 400 * DayFromYear y"
  "400 * DayFromYear y \<le> 146097 * (y - 1970) + 589"
proof -
  define a where "a = (y - 1969) div 4"
  define b where "b = (y - 1901) div 100"
  define c where "c = (y - 1601) div 400"
  have a: "4 * a \<le> y - 1969" "y - 1969 - 3 \<le> 4 * a"
    unfolding a_def using div_bounds [of 4 "y - 1969"] by simp_all
  have b: "100 * b \<le> y - 1901" "y - 1901 - 99 \<le> 100 * b"
    unfolding b_def using div_bounds [of 100 "y - 1901"] by simp_all
  have c: "400 * c \<le> y - 1601" "y - 1601 - 399 \<le> 400 * c"
    unfolding c_def using div_bounds [of 400 "y - 1601"] by simp_all
  have D: "DayFromYear y = 365 * (y - 1970) + a - b + c"
    by (simp add: DayFromYear_def a_def b_def c_def)
  show "146097 * (y - 1970) - 506 \<le> 400 * DayFromYear y"
    unfolding D using a b c by (simp add: algebra_simps)
  show "400 * DayFromYear y \<le> 146097 * (y - 1970) + 589"
    unfolding D using a b c by (simp add: algebra_simps)
qed

lemma Day_seconds: "Day (t * 1000) = t div 86400"
proof -
  have "(t * 1000) div (86400 * 1000) = t div 86400"
    by (rule div_mult_mult2) simp
  moreover have "(86400000::int) = 86400 * 1000"
    by simp
  ultimately show ?thesis
    by (simp only: Day_def msPerDay_def)
qed

lemma div_add_one:
  fixes x k :: int
  assumes "1 < k"
  shows "(x + 1) div k = x div k + (if (x + 1) mod k = 0 then 1 else 0)"
proof -
  have r: "0 \<le> x mod k" "x mod k < k"
    using assms by simp_all
  have e: "(x + 1) div k = x div k + (x mod k + 1) div k"
    using div_add1_eq [of x 1 k] assms by simp
  have m: "(x + 1) mod k = (x mod k + 1) mod k"
    by (simp add: mod_add_left_eq)
  show ?thesis
  proof (cases "x mod k = k - 1")
    case True
    then show ?thesis using e m assms by simp
  next
    case False
    then have lt: "x mod k + 1 < k" using r by linarith
    then have "(x mod k + 1) div k = 0" "(x mod k + 1) mod k = x mod k + 1"
      using r by simp_all
    then show ?thesis using e m r by simp
  qed
qed

lemma shift4: "((y::int) - 1968) mod 4 = y mod 4"
proof -
  have "y - 1968 = y + (- 492) * 4" by simp
  then show ?thesis by (metis mod_mult_self1)
qed

lemma shift100: "((y::int) - 1900) mod 100 = y mod 100"
proof -
  have "y - 1900 = y + (- 19) * 100" by simp
  then show ?thesis by (metis mod_mult_self1)
qed

lemma shift400: "((y::int) - 1600) mod 400 = y mod 400"
proof -
  have "y - 1600 = y + (- 4) * 400" by simp
  then show ?thesis by (metis mod_mult_self1)
qed

lemma step_aux:
  fixes p q r :: bool and y a b c :: int
  assumes "r \<Longrightarrow> q" "q \<Longrightarrow> p"
  shows "365 * (y + 1 - 1970) + (a + (if p then 1 else 0)) - (b + (if q then 1 else 0))
           + (c + (if r then 1 else 0))
         = 365 * (y - 1970) + a - b + c
           + (if \<not> p then 365 else if \<not> q then 366 else if \<not> r then 365 else 366)"
  using assms by (cases p; cases q; cases r; simp)

lemma DayFromYear_step: "DayFromYear (y + 1) = DayFromYear y + DaysInYear y"
proof -
  have a: "(y + 1 - 1969) div 4 = (y - 1969) div 4 + (if y mod 4 = 0 then 1 else 0)"
    using div_add_one [of 4 "y - 1969"] shift4 [of y] by (simp add: algebra_simps)
  have b: "(y + 1 - 1901) div 100 = (y - 1901) div 100 + (if y mod 100 = 0 then 1 else 0)"
    using div_add_one [of 100 "y - 1901"] shift100 [of y] by (simp add: algebra_simps)
  have c: "(y + 1 - 1601) div 400 = (y - 1601) div 400 + (if y mod 400 = 0 then 1 else 0)"
    using div_add_one [of 400 "y - 1601"] shift400 [of y] by (simp add: algebra_simps)
  have d1: "y mod 400 = 0 \<Longrightarrow> y mod 100 = 0"
  proof -
    assume "y mod 400 = 0"
    then have "400 dvd y" by (simp add: mod_eq_0_iff_dvd)
    moreover have "(100::int) dvd 400" by simp
    ultimately have "100 dvd y" by (rule dvd_trans [rotated])
    then show ?thesis by (simp add: mod_eq_0_iff_dvd)
  qed
  have d2: "y mod 100 = 0 \<Longrightarrow> y mod 4 = 0"
  proof -
    assume "y mod 100 = 0"
    then have "100 dvd y" by (simp add: mod_eq_0_iff_dvd)
    moreover have "(4::int) dvd 100" by simp
    ultimately have "4 dvd y" by (rule dvd_trans [rotated])
    then show ?thesis by (simp add: mod_eq_0_iff_dvd)
  qed
  show ?thesis
    unfolding DayFromYear_def DaysInYear_def a b c
    by (rule step_aux [OF d1 d2])
qed

lemma DayFromYear_epoch: "DayFromYear 1970 = 0"
  by (simp add: DayFromYear_def)

lemma if_chain_cases:
  fixes p q r :: bool
  shows "(if p then 365 else if q then 366 else if r then 365 else (366::int)) = 365
         \<or> (if p then 365 else if q then 366 else if r then 365 else (366::int)) = 366"
  by (cases p; cases q; cases r; simp)

lemma DaysInYear_cases: "DaysInYear y = 365 \<or> DaysInYear y = 366"
  unfolding DaysInYear_def by (rule if_chain_cases)

lemma DayFromYear_mono: "y \<le> y' \<Longrightarrow> DayFromYear y \<le> DayFromYear y'"
proof (induction y' rule: int_ge_induct)
  case base
  show ?case by simp
next
  case (step i)
  have "DayFromYear i \<le> DayFromYear (i + 1)"
    using DayFromYear_step [of i] DaysInYear_cases [of i] by linarith
  with step show ?case by linarith
qed

lemma YearFromDay_bounds:
  "DayFromYear (YearFromDay d) \<le> d" "d < DayFromYear (YearFromDay d + 1)"
proof -
  define q where "q = (400 * d) div 146097"
  define y where "y = 1970 + q"
  have q: "146097 * q \<le> 400 * d" "400 * d - 146096 \<le> 146097 * q"
    unfolding q_def using div_bounds [of 146097 "400 * d"] by simp_all
  have lo: "DayFromYear (y - 1) \<le> d"
    using DayFromYear_bounds(2) [of "y - 1"] q by (simp add: y_def algebra_simps)
  have hi: "d < DayFromYear (y + 1 + 1)"
    using DayFromYear_bounds(1) [of "y + 1 + 1"] q by (simp add: y_def algebra_simps)
  have Y: "YearFromDay d =
             (if DayFromYear (y + 1) \<le> d then y + 1
              else if DayFromYear y \<le> d then y else y - 1)"
    by (simp add: YearFromDay_def Let_def y_def q_def)
  show "DayFromYear (YearFromDay d) \<le> d"
    unfolding Y using lo by simp
  show "d < DayFromYear (YearFromDay d + 1)"
    unfolding Y using hi by auto
qed

lemma YearFromDay_largest: "DayFromYear y \<le> d \<longleftrightarrow> y \<le> YearFromDay d"
proof
  assume a: "DayFromYear y \<le> d"
  show "y \<le> YearFromDay d"
  proof (rule ccontr)
    assume "\<not> y \<le> YearFromDay d"
    then have "YearFromDay d + 1 \<le> y" by simp
    then have "DayFromYear (YearFromDay d + 1) \<le> DayFromYear y"
      by (rule DayFromYear_mono)
    with a YearFromDay_bounds(2) [of d] show False by linarith
  qed
next
  assume "y \<le> YearFromDay d"
  then have "DayFromYear y \<le> DayFromYear (YearFromDay d)"
    by (rule DayFromYear_mono)
  with YearFromDay_bounds(1) [of d] show "DayFromYear y \<le> d" by linarith
qed

lemma month_date_table:
  fixes d l :: int
  assumes "0 \<le> d" and "d < 365 + l" and "0 \<le> l" and "l \<le> 1"
    and m_def: "m = (if d < 31 then 0
         else if d < 59 + l then 1
         else if d < 90 + l then 2
         else if d < 120 + l then 3
         else if d < 151 + l then 4
         else if d < 181 + l then 5
         else if d < 212 + l then 6
         else if d < 243 + l then 7
         else if d < 273 + l then 8
         else if d < 304 + l then 9
         else if d < 334 + l then 10
         else (11::int))"
    and dt_def: "dt = (if m = 0 then d + 1
         else if m = 1 then d - 30
         else if m = 2 then d - 58 - l
         else if m = 3 then d - 89 - l
         else if m = 4 then d - 119 - l
         else if m = 5 then d - 150 - l
         else if m = 6 then d - 180 - l
         else if m = 7 then d - 211 - l
         else if m = 8 then d - 242 - l
         else if m = 9 then d - 272 - l
         else if m = 10 then d - 303 - l
         else d - 333 - l)"
  shows "0 \<le> m \<and> m \<le> 11 \<and> 1 \<le> dt \<and> dt \<le> month_lengths l ! nat m
         \<and> sum_list (take (nat m) (month_lengths l)) + (dt - 1) = d"
proof -
  consider (m0) "d < 31"
    | (m1) "31 \<le> d" "d < 59 + l"
    | (m2) "59 + l \<le> d" "d < 90 + l"
    | (m3) "90 + l \<le> d" "d < 120 + l"
    | (m4) "120 + l \<le> d" "d < 151 + l"
    | (m5) "151 + l \<le> d" "d < 181 + l"
    | (m6) "181 + l \<le> d" "d < 212 + l"
    | (m7) "212 + l \<le> d" "d < 243 + l"
    | (m8) "243 + l \<le> d" "d < 273 + l"
    | (m9) "273 + l \<le> d" "d < 304 + l"
    | (m10) "304 + l \<le> d" "d < 334 + l"
    | (m11) "334 + l \<le> d"
    by linarith
  then show ?thesis
  proof cases
    case m0
    then have "m = 0" by (simp add: m_def)
    then show ?thesis using m0 assms(1-4) by (simp add: dt_def month_lengths_def)
  next
    case m1
    then have "m = 1" using assms(3,4) by (simp add: m_def)
    then show ?thesis using m1 assms(1-4) by (simp add: dt_def month_lengths_def)
  next
    case m2
    then have "m = 2" using assms(3,4) by (simp add: m_def)
    then show ?thesis using m2 assms(1-4) by (simp add: dt_def month_lengths_def)
  next
    case m3
    then have "m = 3" using assms(3,4) by (simp add: m_def)
    then show ?thesis using m3 assms(1-4) by (simp add: dt_def month_lengths_def)
  next
    case m4
    then have "m = 4" using assms(3,4) by (simp add: m_def)
    then show ?thesis using m4 assms(1-4) by (simp add: dt_def month_lengths_def)
  next
    case m5
    then have "m = 5" using assms(3,4) by (simp add: m_def)
    then show ?thesis using m5 assms(1-4) by (simp add: dt_def month_lengths_def)
  next
    case m6
    then have "m = 6" using assms(3,4) by (simp add: m_def)
    then show ?thesis using m6 assms(1-4) by (simp add: dt_def month_lengths_def)
  next
    case m7
    then have "m = 7" using assms(3,4) by (simp add: m_def)
    then show ?thesis using m7 assms(1-4) by (simp add: dt_def month_lengths_def)
  next
    case m8
    then have "m = 8" using assms(3,4) by (simp add: m_def)
    then show ?thesis using m8 assms(1-4) by (simp add: dt_def month_lengths_def)
  next
    case m9
    then have "m = 9" using assms(3,4) by (simp add: m_def)
    then show ?thesis using m9 assms(1-4) by (simp add: dt_def month_lengths_def)
  next
    case m10
    then have "m = 10" using assms(3,4) by (simp add: m_def)
    then show ?thesis using m10 assms(1-4) by (simp add: dt_def month_lengths_def)
  next
    case m11
    then have "m = 11" using assms(3,4) by (simp add: m_def)
    then show ?thesis using m11 assms(1-4) by (simp add: dt_def month_lengths_def)
  qed
qed

lemma DayWithinYear_range:
  "0 \<le> DayWithinYear t" "DayWithinYear t < 365 + leap_days (YearFromTime t)"
  unfolding DayWithinYear_def YearFromTime_def leap_days_def
  using YearFromDay_bounds [of "Day t"] DayFromYear_step [of "YearFromDay (Day t)"]
  by linarith+

lemma InLeapYear_leap_days: "InLeapYear t = leap_days (YearFromTime t)"
  unfolding InLeapYear_def leap_days_def
  using DaysInYear_cases [of "YearFromTime t"] by auto

lemma leap_days_range: "0 \<le> leap_days y" "leap_days y \<le> 1"
  unfolding leap_days_def using DaysInYear_cases [of y] by auto

lemma utc_date:
  "0 \<le> MonthFromTime t \<and> MonthFromTime t \<le> 11 \<and> 1 \<le> DateFromTime t
   \<and> DateFromTime t \<le> month_lengths (leap_days (YearFromTime t)) ! nat (MonthFromTime t)
   \<and> sum_list (take (nat (MonthFromTime t)) (month_lengths (leap_days (YearFromTime t))))
       + (DateFromTime t - 1) = DayWithinYear t"
proof (rule month_date_table)
  show "0 \<le> DayWithinYear t"
    by (rule DayWithinYear_range)
  show "DayWithinYear t < 365 + leap_days (YearFromTime t)"
    by (rule DayWithinYear_range)
  show "0 \<le> leap_days (YearFromTime t)" "leap_days (YearFromTime t) \<le> 1"
    by (rule leap_days_range)+
  show "MonthFromTime t =
     (if DayWithinYear t < 31 then 0
         else if DayWithinYear t < 59 + leap_days (YearFromTime t) then 1
         else if DayWithinYear t < 90 + leap_days (YearFromTime t) then 2
         else if DayWithinYear t < 120 + leap_days (YearFromTime t) then 3
         else if DayWithinYear t < 151 + leap_days (YearFromTime t) then 4
         else if DayWithinYear t < 181 + leap_days (YearFromTime t) then 5
         else if DayWithinYear t < 212 + leap_days (YearFromTime t) then 6
         else if DayWithinYear t < 243 + leap_days (YearFromTime t) then 7
         else if DayWithinYear t < 273 + leap_days (YearFromTime t) then 8
         else if DayWithinYear t < 304 + leap_days (YearFromTime t) then 9
         else if DayWithinYear t < 334 + leap_days (YearFromTime t) then 10
         else 11)"
    unfolding MonthFromTime_def InLeapYear_leap_days Let_def by (rule refl)
  show "DateFromTime t =
     (if MonthFromTime t = 0 then DayWithinYear t + 1
         else if MonthFromTime t = 1 then DayWithinYear t - 30
         else if MonthFromTime t = 2 then DayWithinYear t - 58 - leap_days (YearFromTime t)
         else if MonthFromTime t = 3 then DayWithinYear t - 89 - leap_days (YearFromTime t)
         else if MonthFromTime t = 4 then DayWithinYear t - 119 - leap_days (YearFromTime t)
         else if MonthFromTime t = 5 then DayWithinYear t - 150 - leap_days (YearFromTime t)
         else if MonthFromTime t = 6 then DayWithinYear t - 180 - leap_days (YearFromTime t)
         else if MonthFromTime t = 7 then DayWithinYear t - 211 - leap_days (YearFromTime t)
         else if MonthFromTime t = 8 then DayWithinYear t - 242 - leap_days (YearFromTime t)
         else if MonthFromTime t = 9 then DayWithinYear t - 272 - leap_days (YearFromTime t)
         else if MonthFromTime t = 10 then DayWithinYear t - 303 - leap_days (YearFromTime t)
         else DayWithinYear t - 333 - leap_days (YearFromTime t))"
    unfolding DateFromTime_def InLeapYear_leap_days Let_def by (rule refl)
qed

lemma utc_date_correct:
  "valid_date (YearFromTime t) (MonthFromTime t + 1) (DateFromTime t)
   \<and> civil_day (YearFromTime t) (MonthFromTime t + 1) (DateFromTime t) = Day t"
  using utc_date [of t]
  by (simp add: valid_date_def civil_day_def DayWithinYear_def)

section \<open>The shape of a formatted date\<close>

lemma decimal_length: "0 < k \<Longrightarrow> n < 10 ^ k \<Longrightarrow> length (decimal n) \<le> k"
proof (induction k arbitrary: n)
  case 0
  then show ?case by simp
next
  case (Suc k)
  show ?case
  proof (cases "n < 10")
    case True
    have "decimal n = [digit n]"
      using True by (subst decimal.simps) simp
    then show ?thesis by simp
  next
    case False
    have k: "0 < k"
    proof (rule ccontr)
      assume "\<not> 0 < k"
      then have "k = 0" by simp
      with Suc.prems(2) False show False by simp
    qed
    have "n < 10 ^ k * 10"
      using Suc.prems(2) by simp
    then have "n div 10 < 10 ^ k"
      by (simp only: div_less_iff_less_mult [OF zero_less_numeral])
    from Suc.IH [OF k this] have l: "length (decimal (n div 10)) \<le> k" .
    have "decimal n = decimal (n div 10) @ [digit n]"
      using False by (subst decimal.simps) simp
    with l show ?thesis by simp
  qed
qed


lemma padded_length:
  assumes "0 < k" and "n < 10 ^ k"
  shows "length (ToZeroPaddedDecimalString n k) = k"
proof -
  have "length (decimal n) \<le> k"
    using assms by (rule decimal_length)
  then show ?thesis
    by (simp add: ToZeroPaddedDecimalString_def Let_def)
qed

lemma padded_is_digit:
  assumes "c \<in> set (ToZeroPaddedDecimalString n k)"
  shows "is_digit c"
proof -
  have "set (ToZeroPaddedDecimalString n k)
          \<subseteq> set (replicate (k - length (decimal n)) CHR ''0'') \<union> set (decimal n)"
    by (simp add: ToZeroPaddedDecimalString_def Let_def)
  moreover have "set (replicate (k - length (decimal n)) CHR ''0'') \<subseteq> {CHR ''0''}"
    by (simp add: set_replicate_conv_if)
  ultimately have "c = CHR ''0'' \<or> c \<in> set (decimal n)"
    using assms by blast
  then show ?thesis
  proof
    assume "c = CHR ''0''"
    then show ?thesis by (simp add: is_digit_def)
  next
    assume "c \<in> set (decimal n)"
    then show ?thesis
      using decimal_digits [of n] unfolding is_digit_def by (rule subsetD [rotated])
  qed
qed

lemma list4: "length xs = 4 \<Longrightarrow> \<exists>a b c d. xs = [a, b, c, d]"
  by (simp add: numeral_eq_Suc length_Suc_conv) blast

lemma list2: "length xs = 2 \<Longrightarrow> \<exists>a b. xs = [a, b]"
  by (simp add: numeral_eq_Suc length_Suc_conv) blast

lemma yyyy_mm_dd_shape:
  assumes "length ys = 4" and "length ms = 2" and "length ds = 2"
    and "\<And>c. c \<in> set ys \<Longrightarrow> is_digit c"
    and "\<And>c. c \<in> set ms \<Longrightarrow> is_digit c"
    and "\<And>c. c \<in> set ds \<Longrightarrow> is_digit c"
  shows "is_yyyy_mm_dd (ys @ ''-'' @ ms @ ''-'' @ ds)"
proof -
  obtain y1 y2 y3 y4 where ys: "ys = [y1, y2, y3, y4]"
    using list4 [OF assms(1)] by blast
  obtain m1 m2 where ms: "ms = [m1, m2]"
    using list2 [OF assms(2)] by blast
  obtain d1 d2 where ds: "ds = [d1, d2]"
    using list2 [OF assms(3)] by blast
  show ?thesis
    using assms(4-6) unfolding ys ms ds by simp
qed

lemma year_range:
  assumes "- 719528 \<le> Day t" and "Day t < 2932897"
  shows "0 \<le> YearFromTime t" "YearFromTime t \<le> 9999"
proof -
  have a: "DayFromYear 0 = - 719528" and b: "DayFromYear 10000 = 2932897"
    by (simp_all add: DayFromYear_def)
  show "0 \<le> YearFromTime t"
    unfolding YearFromTime_def using YearFromDay_largest [of 0 "Day t"] a assms by simp
  have "\<not> 10000 \<le> YearFromDay (Day t)"
    using YearFromDay_largest [of 10000 "Day t"] b assms by simp
  then show "YearFromTime t \<le> 9999"
    unfolding YearFromTime_def by simp
qed

lemma day_range:
  assumes "- 62167219200 \<le> t" and "t \<le> 253402300799"
  shows "- 719528 \<le> Day (t * 1000)" "Day (t * 1000) < 2932897"
  unfolding Day_seconds using div_bounds [of 86400 t] assms by linarith+

lemma month_length_le:
  assumes "0 \<le> l" and "l \<le> 1" and "i < 12"
  shows "month_lengths l ! i \<le> 31"
proof -
  have "\<forall>x \<in> set (month_lengths l). x \<le> 31"
    using assms(1,2) by (simp add: month_lengths_def)
  moreover have "month_lengths l ! i \<in> set (month_lengths l)"
    using assms(3) by (intro nth_mem) (simp add: month_lengths_def)
  ultimately show ?thesis by blast
qed

lemma valid_date_bounds:
  assumes "valid_date y m d"
  shows "1 \<le> m" "m \<le> 12" "1 \<le> d" "d \<le> 31"
proof -
  show m: "1 \<le> m" "m \<le> 12" and "1 \<le> d"
    using assms by (simp_all add: valid_date_def)
  have "nat (m - 1) < 12"
    using m by simp
  then have "month_lengths (leap_days y) ! nat (m - 1) \<le> 31"
    by (intro month_length_le leap_days_range)
  then show "d \<le> 31"
    using assms by (simp add: valid_date_def)
qed

lemma iso_date_in_range:
  assumes "0 \<le> YearFromTime t" and "YearFromTime t \<le> 9999"
  shows "iso_date t = ToZeroPaddedDecimalString (nat (YearFromTime t)) 4 @ ''-''
                 @ ToZeroPaddedDecimalString (nat (MonthFromTime t + 1)) 2 @ ''-''
                 @ ToZeroPaddedDecimalString (nat (DateFromTime t)) 2"
  using assms by (simp add: iso_date_def iso_year_def)

lemma iso_date_shape:
  assumes "0 \<le> y" and "y \<le> 9999" and "valid_date y m d"
  shows "is_yyyy_mm_dd (ToZeroPaddedDecimalString (nat y) 4 @ ''-''
                    @ ToZeroPaddedDecimalString (nat m) 2 @ ''-''
                    @ ToZeroPaddedDecimalString (nat d) 2)"
proof -
  note md = valid_date_bounds [OF assms(3)]
  have ly: "length (ToZeroPaddedDecimalString (nat y) 4) = 4"
    using assms(1,2) by (intro padded_length) simp_all
  have lm: "length (ToZeroPaddedDecimalString (nat m) 2) = 2"
    using md by (intro padded_length) simp_all
  have ld: "length (ToZeroPaddedDecimalString (nat d) 2) = 2"
    using md by (intro padded_length) simp_all
  show ?thesis
    using ly lm ld by (rule yyyy_mm_dd_shape) (erule padded_is_digit)+
qed

section \<open>Date derivation\<close>

text \<open>
  Claim C4 (date derivation), as stated, fails: 253402300800 is a valid integer
  timestamp (the first second of the year 10000), and \<^verbatim>\<open>toISOString\<close> writes a year
  beyond 9999 in the expanded form, with a sign and six digits, so the result is not in
  \<^verbatim>\<open>YYYY-MM-DD\<close> form.
\<close>

theorem date_derivation_counterexample:
  "formatJoinDate (Num 253402300800) = Inr ''+010000-01-01''
   \<and> \<not> is_yyyy_mm_dd ''+010000-01-01''"
  by (simp add: date_eval)

text \<open>
  Claim C4, amended. For every integer timestamp from -62167219200 to 253402300799
  (the years 0 to 9999), \<^verbatim>\<open>formatJoinDate\<close> returns a string in \<^verbatim>\<open>YYYY-MM-DD\<close>
  form: the zero-padded year, month and date of a date that exists in the calendar and
  lies \<open>t div 86400\<close> days after 1970-01-01, which is the UTC calendar date of the
  instant. In particular the timestamp 1752979200 gives \<^verbatim>\<open>2025-07-20\<close>.
\<close>

theorem date_derivation:
  assumes "- 62167219200 \<le> t" and "t \<le> 253402300799"
  shows "(let y = YearFromTime (t * 1000);
              m = MonthFromTime (t * 1000) + 1;
              d = DateFromTime (t * 1000);
              s = ToZeroPaddedDecimalString (nat y) 4 @ ''-''
                  @ ToZeroPaddedDecimalString (nat m) 2 @ ''-''
                  @ ToZeroPaddedDecimalString (nat d) 2
          in formatJoinDate (Num t) = Inr s \<and> is_yyyy_mm_dd s
             \<and> 0 \<le> y \<and> y \<le> 9999 \<and> valid_date y m d
             \<and> civil_day y m d = t div 86400)
         \<and> formatJoinDate (Num 1752979200) = Inr ''2025-07-20''"
proof -
  have yr: "0 \<le> YearFromTime (t * 1000)" "YearFromTime (t * 1000) \<le> 9999"
    using year_range [OF day_range [OF assms]] by simp_all
  have cal: "valid_date (YearFromTime (t * 1000)) (MonthFromTime (t * 1000) + 1)
               (DateFromTime (t * 1000))"
    and day: "civil_day (YearFromTime (t * 1000)) (MonthFromTime (t * 1000) + 1)
               (DateFromTime (t * 1000)) = t div 86400"
    using utc_date_correct [of "t * 1000"] by (simp_all add: Day_seconds)
  have "\<not> \<bar>t * 1000\<bar> > 8640000000000000"
    using assms by simp
  then have "formatJoinDate (Num t) = Inr (iso_date (t * 1000))"
    by (simp add: formatJoinDate_Num)
  then have fmt: "formatJoinDate (Num t)
      = Inr (ToZeroPaddedDecimalString (nat (YearFromTime (t * 1000))) 4 @ ''-''
             @ ToZeroPaddedDecimalString (nat (MonthFromTime (t * 1000) + 1)) 2 @ ''-''
             @ ToZeroPaddedDecimalString (nat (DateFromTime (t * 1000))) 2)"
    by (simp only: iso_date_in_range [OF yr])
  have "formatJoinDate (Num 1752979200) = Inr ''2025-07-20''"
    by (rule scenario_date)
  then show ?thesis
    unfolding Let_def using fmt iso_date_shape [OF yr cal] yr cal day by blast
qed

theorem date_derivation_witness:
  "formatJoinDate (Num 1752979200) = Inr ''2025-07-20''
   \<and> is_yyyy_mm_dd ''2025-07-20'' \<and> valid_date 2025 7 20
   \<and> civil_day 2025 7 20 = 1752979200 div 86400"
proof -
  have a: "- 62167219200 \<le> (1752979200::int)" and b: "(1752979200::int) \<le> 253402300799"
    by simp_all
  have e: "YearFromTime (1752979200 * 1000) = 2025"
    "MonthFromTime (1752979200 * 1000) + 1 = 7"
    "DateFromTime (1752979200 * 1000) = 20"
    by (simp_all add: date_eval)
  have s: "ToZeroPaddedDecimalString (nat 2025) 4 @ ''-''
           @ ToZeroPaddedDecimalString (nat 7) 2 @ ''-''
           @ ToZeroPaddedDecimalString (nat 20) 2 = ''2025-07-20''"
    by (simp add: date_eval)
  from date_derivation [OF a b] show ?thesis
    unfolding Let_def e s by simp
qed

end
